theory Spec2Isabelle
  imports Complex_Main "HOL-Library.AList"
begin

section \<open>Time values and the calendar of ECMAScript\<close>

text \<open>
  A JavaScript \<open>Date\<close> holds a time value: the number of milliseconds since
  1970-01-01T00:00:00Z. Time values are modelled as \<open>int\<close>. The functions of this section
  are the abstract operations of the ECMAScript specification (Day, TimeWithinDay,
  DayFromYear, YearFromTime, MonthFromTime, DateFromTime, WeekDay, MakeDay, MakeDate) that
  the \<open>Date\<close> methods called by \<open>main.js\<close> are defined by.

  The local time zone is a parameter \<open>tz\<close>: the offset of local time from UTC in
  milliseconds, constant over time (a zone without daylight-saving transitions). The
  clipping of time values beyond \<open>8.64 * 10^15\<close> ms to Invalid Date is outside the model.
\<close>

definition msPerDay :: int where
  "msPerDay = 86400000"

definition Day :: "int \<Rightarrow> int" where
  "Day t = t div msPerDay"

definition TimeWithinDay :: "int \<Rightarrow> int" where
  "TimeWithinDay t = t mod msPerDay"

definition WeekDay :: "int \<Rightarrow> int" where
  "WeekDay t = (Day t + 4) mod 7"

definition LocalTime :: "int \<Rightarrow> int \<Rightarrow> int" where
  "LocalTime tz t = t + tz"

definition UTC :: "int \<Rightarrow> int \<Rightarrow> int" where
  "UTC tz t = t - tz"

definition isLeapYear :: "int \<Rightarrow> bool" where
  "isLeapYear y = (y mod 4 = 0 \<and> (y mod 100 \<noteq> 0 \<or> y mod 400 = 0))"


definition DayFromYear :: "int \<Rightarrow> int" where
  "DayFromYear y =
     365 * (y - 1970) + (y - 1969) div 4 - (y - 1901) div 100 + (y - 1601) div 400"

text \<open>
  ECMAScript defines YearFromTime(t) as the largest \<open>y\<close> with
  \<open>DayFromYear y * msPerDay \<le> t\<close>. \<open>yearFromDay\<close> computes it: an estimate from the mean
  length of a year (146097 days in 400 years), corrected by at most one year.
  Lemma \<open>yearFromDay_bounds\<close> below shows that it is the year of the definition.
\<close>

definition yearFromDay :: "int \<Rightarrow> int" where
  "yearFromDay d =
     (let y0 = 1970 + (d * 400) div 146097
      in if d < DayFromYear y0 then y0 - 1
         else if DayFromYear (y0 + 1) \<le> d then y0 + 1
         else y0)"

definition YearFromTime :: "int \<Rightarrow> int" where
  "YearFromTime t = yearFromDay (Day t)"

definition DayWithinYear :: "int \<Rightarrow> int" where
  "DayWithinYear t = Day t - DayFromYear (YearFromTime t)"

definition leapDays :: "int \<Rightarrow> int" where
  "leapDays y = (if isLeapYear y then 1 else 0)"

text \<open>The number of days of the year before month \<open>m\<close> (0 = January .. 11 = December).\<close>

definition daysBeforeMonth :: "int \<Rightarrow> int \<Rightarrow> int" where
  "daysBeforeMonth y m =
     (if m \<le> 0 then 0
      else if m = 1 then 31
      else (if m = 2 then 59 else if m = 3 then 90 else if m = 4 then 120
            else if m = 5 then 151 else if m = 6 then 181 else if m = 7 then 212
            else if m = 8 then 243 else if m = 9 then 273 else if m = 10 then 304
            else 334) + leapDays y)"

definition monthFromDayInYear :: "int \<Rightarrow> int \<Rightarrow> int" where
  "monthFromDayInYear y n =
     (let l = leapDays y
      in if n < 31 then 0
         else if n < 59 + l then 1
         else if n < 90 + l then 2
         else if n < 120 + l then 3
         else if n < 151 + l then 4
         else if n < 181 + l then 5
         else if n < 212 + l then 6
         else if n < 243 + l then 7
         else if n < 273 + l then 8
         else if n < 304 + l then 9
         else if n < 334 + l then 10
         else 11)"

definition MonthFromTime :: "int \<Rightarrow> int" where
  "MonthFromTime t = monthFromDayInYear (YearFromTime t) (DayWithinYear t)"

definition DateFromTime :: "int \<Rightarrow> int" where
  "DateFromTime t =
     DayWithinYear t - daysBeforeMonth (YearFromTime t) (MonthFromTime t) + 1"

text \<open>
  MakeDay(year, month, date): the day number of the first day of the month, found from
  \<open>ym = year + floor(month / 12)\<close> and \<open>mn = month mod 12\<close>, plus \<open>date - 1\<close>.
\<close>

definition MakeDay :: "int \<Rightarrow> int \<Rightarrow> int \<Rightarrow> int" where
  "MakeDay year month date =
     (let ym = year + month div 12; mn = month mod 12
      in DayFromYear ym + daysBeforeMonth ym mn + date - 1)"

definition MakeDate :: "int \<Rightarrow> int \<Rightarrow> int" where
  "MakeDate day time = day * msPerDay + time"

subsection \<open>The \<open>Date\<close> methods used by the program\<close>

definition getDay :: "int \<Rightarrow> int \<Rightarrow> int" where
  "getDay tz t = WeekDay (LocalTime tz t)"

definition getDate :: "int \<Rightarrow> int \<Rightarrow> int" where
  "getDate tz t = DateFromTime (LocalTime tz t)"



definition setDate :: "int \<Rightarrow> int \<Rightarrow> int \<Rightarrow> int" where
  "setDate tz t dt =
     (let l = LocalTime tz t
      in UTC tz (MakeDate (MakeDay (YearFromTime l) (MonthFromTime l) dt) (TimeWithinDay l)))"

text \<open>\<open>x.setHours(0,0,0,0)\<close>: MakeTime(0,0,0,0) is 0.\<close>

definition setHours0 :: "int \<Rightarrow> int \<Rightarrow> int" where
  "setHours0 tz t = UTC tz (MakeDate (Day (LocalTime tz t)) 0)"

section \<open>Date helpers of \<open>main.js\<close>\<close>

text \<open>
  \<^verbatim>\<open>
  function startOfWeek(d = new Date()) {
    const x = new Date(d);
    const diff = x.getDay(); // 0=Sun..6=Sat
    x.setDate(x.getDate() - diff);
    x.setHours(0,0,0,0);
    return x;
  }
  \<close>
\<close>

definition startOfWeek :: "int \<Rightarrow> int \<Rightarrow> int" where
  "startOfWeek tz d =
     (let x = d;
          diff = getDay tz x;
          x = setDate tz x (getDate tz x - diff);
          x = setHours0 tz x
      in x)"

subsection \<open>\<open>toISOString\<close> and \<open>weekKey\<close>\<close>

definition digitChar :: "nat \<Rightarrow> char" where
  "digitChar n = ''0123456789'' ! (n mod 10)"

text \<open>Decimal digits of fixed width, zero-padded on the left.\<close>

definition pad2 :: "nat \<Rightarrow> string" where
  "pad2 n = [digitChar (n div 10 mod 10), digitChar (n mod 10)]"

definition pad3 :: "nat \<Rightarrow> string" where
  "pad3 n = digitChar (n div 100 mod 10) # pad2 n"

definition pad4 :: "nat \<Rightarrow> string" where
  "pad4 n = digitChar (n div 1000 mod 10) # pad3 n"

definition pad6 :: "nat \<Rightarrow> string" where
  "pad6 n = digitChar (n div 100000 mod 10) # digitChar (n div 10000 mod 10) # pad4 n"

text \<open>
  The year of \<open>toISOString\<close>: four digits for the years 0 to 9999, otherwise the
  expanded form, a sign and six digits (the years of valid time values lie within
  \<open>\<plusminus>275760\<close>).
\<close>

definition yearString :: "int \<Rightarrow> string" where
  "yearString y =
     (if 0 \<le> y \<and> y \<le> 9999 then pad4 (nat y)
      else (if 0 \<le> y then CHR ''+'' else CHR ''-'') # pad6 (nat \<bar>y\<bar>))"

definition toISOString :: "int \<Rightarrow> string" where
  "toISOString t =
     (let w = TimeWithinDay t
      in yearString (YearFromTime t) @ ''-'' @ pad2 (nat (MonthFromTime t + 1)) @ ''-'' @
         pad2 (nat (DateFromTime t)) @ ''T'' @ pad2 (nat (w div 3600000)) @ '':'' @
         pad2 (nat (w div 60000 mod 60)) @ '':'' @ pad2 (nat (w div 1000 mod 60)) @ ''.'' @
         pad3 (nat (w mod 1000)) @ ''Z'')"

text \<open>
  \<^verbatim>\<open>
  function weekKey(d = new Date()) {
    return startOfWeek(d).toISOString().slice(0,10);
  }
  \<close>
\<close>

definition weekKey :: "int \<Rightarrow> int \<Rightarrow> string" where
  "weekKey tz d = take 10 (toISOString (startOfWeek tz d))"






section \<open>The document\<close>

text \<open>
  A JavaScript object with string keys is an association list in property order; a
  property is looked up with \<open>map_of\<close>, assigned with \<open>AList.update\<close> (in place when the
  key exists, appended otherwise) and deleted with \<open>AList.delete\<close>.
\<close>

type_synonym 'v object = "(string \<times> 'v) list"

record Habit =
  habitId :: string
  name :: string
  createdAt :: string

record Document =
  habits :: "Habit list"
  checks :: "bool object object object"


text \<open>A number used as a property key is converted by ToString.\<close>

fun decimal :: "nat \<Rightarrow> string" where
  "decimal n = (if n < 10 then [digitChar n] else decimal (n div 10) @ [digitChar (n mod 10)])"

declare decimal.simps [simp del]

definition numberToString :: "int \<Rightarrow> string" where
  "numberToString i = (if i < 0 then CHR ''-'' # decimal (nat (- i)) else decimal (nat i))"

text \<open>The entry of the check map at a habit id, a week key and a day key, if there is one.\<close>

definition checkEntry :: "bool object object object \<Rightarrow> string \<Rightarrow> string \<Rightarrow> string \<Rightarrow> bool option" where
  "checkEntry chk i wk k =
     (case map_of chk i of None \<Rightarrow> None
      | Some ws \<Rightarrow> (case map_of ws wk of None \<Rightarrow> None | Some ds \<Rightarrow> map_of ds k))"

section \<open>Home page: the mutations of the event handlers\<close>





text \<open>
  The click handler of the delete buttons:
  \<^verbatim>\<open>
  const id = btn.dataset.deleteHabitId;
  state.habits = state.habits.filter(h => h.id !== id);
  delete state.checks[id];
  save(state);
  renderHome();
  \<close>
\<close>

definition deleteHabit :: "Document \<Rightarrow> string \<Rightarrow> Document" where
  "deleteHabit doc i =
     doc\<lparr>habits := filter (\<lambda>h. habitId h \<noteq> i) (habits doc),
         checks := AList.delete i (checks doc)\<rparr>"

section \<open>Stats page: counting\<close>

text \<open>
  \<^verbatim>\<open>
  function dayCounts(date) {
    const wk = weekKey(date);
    const dayIdx = new Date(date).getDay(); // 0..6
    let total = 0, done = 0;
    state.habits.forEach(h => {
      const created = new Date(h.createdAt);
      if (created <= date) {
        total++;
        if (state.checks[h.id]?.[wk]?.[dayIdx]) done++;
      }
    });
    return { done, total };
  }
  \<close>
  \<open>new Date(s)\<close> of a string is the parameter \<open>parse\<close>: the time value of the date the
  string denotes, \<open>None\<close> for an Invalid Date, whose comparison with any date is false.
  \<open>parseIsoDate\<close> below is the instance for the strings the program writes itself,
  \<open>new Date().toISOString().slice(0,10)\<close>: a date-only string denotes midnight UTC.
\<close>

record Counts =
  doneCount :: nat
  total :: nat

definition checkedAt :: "bool object object object \<Rightarrow> string \<Rightarrow> string \<Rightarrow> int \<Rightarrow> bool" where
  "checkedAt chk i wk dayIdx =
     (case map_of chk i of None \<Rightarrow> False
      | Some ws \<Rightarrow>
          (case map_of ws wk of None \<Rightarrow> False
           | Some ds \<Rightarrow> (case map_of ds (numberToString dayIdx) of None \<Rightarrow> False | Some b \<Rightarrow> b)))"

definition countHabit :: "(string \<Rightarrow> int option) \<Rightarrow> Document \<Rightarrow> string \<Rightarrow> int \<Rightarrow> int \<Rightarrow> Habit \<Rightarrow> Counts \<Rightarrow> Counts" where
  "countHabit parse doc wk dayIdx date h c =
     (case parse (createdAt h) of
        None \<Rightarrow> c
      | Some created \<Rightarrow>
          if created \<le> date
          then (let c = c\<lparr>total := total c + 1\<rparr>
                in if checkedAt (checks doc) (habitId h) wk dayIdx
                   then c\<lparr>doneCount := doneCount c + 1\<rparr> else c)
          else c)"

definition dayCounts :: "int \<Rightarrow> (string \<Rightarrow> int option) \<Rightarrow> Document \<Rightarrow> int \<Rightarrow> Counts" where
  "dayCounts tz parse doc date =
     (let wk = weekKey tz date;
          dayIdx = getDay tz date
      in fold (countHabit parse doc wk dayIdx date) (habits doc) \<lparr>doneCount = 0, total = 0\<rparr>)"

text \<open>The length of month \<open>m\<close> (0 = January .. 11 = December) of year \<open>y\<close> in the calendar.\<close>

definition monthLength :: "int \<Rightarrow> int \<Rightarrow> int" where
  "monthLength y m =
     (if m = 1 then (if isLeapYear y then 29 else 28)
      else if m = 3 \<or> m = 5 \<or> m = 8 \<or> m = 10 then 30
      else 31)"

definition isDigit :: "char \<Rightarrow> bool" where
  "isDigit c = (c \<in> set ''0123456789'')"

definition digitVal :: "char \<Rightarrow> int" where
  "digitVal c = int (length (takeWhile (\<lambda>d. d \<noteq> c) ''0123456789''))"

definition parseIsoDate :: "string \<Rightarrow> int option" where
  "parseIsoDate s =
     (case s of
        [y1, y2, y3, y4, s1, m1, m2, s2, d1, d2] \<Rightarrow>
          (let y = 1000 * digitVal y1 + 100 * digitVal y2 + 10 * digitVal y3 + digitVal y4;
               m = 10 * digitVal m1 + digitVal m2;
               d = 10 * digitVal d1 + digitVal d2
           in if list_all isDigit [y1, y2, y3, y4, m1, m2, d1, d2] \<and> s1 = CHR ''-'' \<and>
                 s2 = CHR ''-'' \<and> 1 \<le> m \<and> m \<le> 12 \<and> 1 \<le> d \<and>
                 d \<le> monthLength y (m - 1)
              then Some (MakeDate (MakeDay y (m - 1) d) 0)
              else None)
      | _ \<Rightarrow> None)"

text \<open>The words of the specification: a habit counts from its creation date on.\<close>

definition activeOn :: "(string \<Rightarrow> int option) \<Rightarrow> int \<Rightarrow> Habit \<Rightarrow> bool" where
  "activeOn parse date h = (case parse (createdAt h) of None \<Rightarrow> False | Some created \<Rightarrow> created \<le> date)"


text \<open>
  A JavaScript number that a division of two counters can give. The rendering of the
  calendar computes \<open>const pct = total ? done / total : 0\<close>; the quotient of two counters
  is taken exactly, as a rational.
\<close>

datatype number = NaN | Infinity | Num rat

definition divide_number :: "nat \<Rightarrow> nat \<Rightarrow> number" where
  "divide_number a b =
     (if b = 0 then (if a = 0 then NaN else Infinity) else Num (of_nat a / of_nat b))"

definition percentOf :: "Counts \<Rightarrow> number" where
  "percentOf c = (if total c \<noteq> 0 then divide_number (doneCount c) (total c) else Num 0)"




section \<open>Storage\<close>

text \<open>
  The values and the grammar of JSON. A number holds the exact value of its literal.
  A string is a sequence of code units below 256; a \<open>\u\<close> escape of a larger code
  unit is outside the model and is read as an error.
\<close>

datatype json = JNull | JBool bool | JNumber rat | JString string | JArray "json list"
  | JObject "(string \<times> json) list"





subsection \<open>\<open>JSON.stringify\<close> of a document\<close>










subsection \<open>\<open>JSON.parse\<close>\<close>





























subsection \<open>\<open>load\<close> and \<open>save\<close>\<close>





definition jsonToString :: "json \<Rightarrow> string option" where
  "jsonToString v = (case v of JString s \<Rightarrow> Some s | _ \<Rightarrow> None)"













subsection \<open>The token sequence of a value\<close>





section \<open>Properties of the date helpers\<close>













section \<open>Properties of the calendar\<close>




























section \<open>Properties of \<open>toISOString\<close> and \<open>weekKey\<close>\<close>






















section \<open>Properties of the counting\<close>

lemma checkedAt_checkEntry:
  "checkedAt chk i wk dayIdx = (checkEntry chk i wk (numberToString dayIdx) = Some True)"
  by (simp add: checkedAt_def checkEntry_def split: option.splits)

lemma countHabit_step:
  "doneCount (countHabit parse doc wk dayIdx date h c) = doneCount c +
        (if activeOn parse date h \<and> checkedAt (checks doc) (habitId h) wk dayIdx then 1 else 0)"
  "total (countHabit parse doc wk dayIdx date h c) =
        total c + (if activeOn parse date h then 1 else 0)"
  by (simp_all add: countHabit_def activeOn_def Let_def split: option.splits)

lemma fold_countHabit:
  "fold (countHabit parse doc wk dayIdx date) hs c =
     \<lparr>doneCount = doneCount c +
        length (filter (\<lambda>h. activeOn parse date h \<and> checkedAt (checks doc) (habitId h) wk dayIdx) hs),
      total = total c + length (filter (activeOn parse date) hs)\<rparr>"
proof (induction hs arbitrary: c)
  case Nil
  show ?case by simp
next
  case (Cons h hs)
  show ?case
    by (simp add: Cons.IH countHabit_step)
qed

lemma dayCounts_eq:
  "dayCounts tz parse doc date =
     \<lparr>doneCount = length (filter (\<lambda>h. activeOn parse date h \<and>
          checkedAt (checks doc) (habitId h) (weekKey tz date) (getDay tz date)) (habits doc)),
      total = length (filter (activeOn parse date) (habits doc))\<rparr>"
  by (simp add: dayCounts_def Let_def fold_countHabit)





text \<open>
  C8: for every document and date on which no habit is active (no habit has
  \<open>createdAt \<le> date\<close>), \<open>dayCounts\<close> returns \<open>{done: 0, total: 0}\<close>, and the percent
  derived from it, \<open>total ? done / total : 0\<close>, is 0 and not the NaN of \<open>0 / 0\<close>.
\<close>

theorem dayCounts_no_active:
  assumes "\<forall>h \<in> set (habits doc). \<not> activeOn parse date h"
  shows "dayCounts tz parse doc date = \<lparr>doneCount = 0, total = 0\<rparr> \<and>
         percentOf (dayCounts tz parse doc date) = Num 0 \<and>
         percentOf (dayCounts tz parse doc date) \<noteq> NaN"
proof -
  have "filter (activeOn parse date) (habits doc) = []"
    using assms by (simp add: filter_empty_conv)
  moreover have "filter (\<lambda>h. activeOn parse date h \<and>
          checkedAt (checks doc) (habitId h) (weekKey tz date) (getDay tz date)) (habits doc) = []"
    using assms by (simp add: filter_empty_conv)
  ultimately show ?thesis
    by (simp add: dayCounts_eq percentOf_def)
qed

lemma parse_20240103: "parseIsoDate ''2024-01-03'' = Some 1704240000000"
  by (simp add: parseIsoDate_def isDigit_def digitVal_def monthLength_def MakeDate_def MakeDay_def
      DayFromYear_def daysBeforeMonth_def msPerDay_def Let_def)

text \<open>A habit created on 2024-01-03, queried at 2024-01-01T00:00Z.\<close>

theorem dayCounts_no_active_witness:
  "\<not> activeOn parseIsoDate 1704067200000
       \<lparr>habitId = ''h_a'', name = ''Read'', createdAt = ''2024-01-03''\<rparr> \<and>
   dayCounts 0 parseIsoDate
     \<lparr>habits = [\<lparr>habitId = ''h_a'', name = ''Read'', createdAt = ''2024-01-03''\<rparr>], checks = []\<rparr>
     1704067200000 = \<lparr>doneCount = 0, total = 0\<rparr> \<and>
   percentOf (dayCounts 0 parseIsoDate
     \<lparr>habits = [\<lparr>habitId = ''h_a'', name = ''Read'', createdAt = ''2024-01-03''\<rparr>], checks = []\<rparr>
     1704067200000) = Num 0"
proof -
  have a: "\<not> activeOn parseIsoDate 1704067200000
      \<lparr>habitId = ''h_a'', name = ''Read'', createdAt = ''2024-01-03''\<rparr>"
    by (simp add: activeOn_def parse_20240103)
  then have "\<forall>h \<in> set (habits \<lparr>habits = [\<lparr>habitId = ''h_a'', name = ''Read'',
        createdAt = ''2024-01-03''\<rparr>], checks = []\<rparr>).
       \<not> activeOn parseIsoDate 1704067200000 h"
    by simp
  from dayCounts_no_active [OF this, of 0] a show ?thesis by blast
qed

section \<open>Properties of the event handlers\<close>






lemma habits_deleteHabit: "habits (deleteHabit doc i) = filter (\<lambda>h. habitId h \<noteq> i) (habits doc)"
  by (simp add: deleteHabit_def)

lemma checkEntry_deleteHabit:
  "checkEntry (checks (deleteHabit doc i)) i' wk k =
     (if i' = i then None else checkEntry (checks doc) i' wk k)"
  by (simp add: deleteHabit_def checkEntry_def delete_conv')

lemma checkedAt_deleteHabit:
  "checkedAt (checks (deleteHabit doc i)) i' wk d = (i' \<noteq> i \<and> checkedAt (checks doc) i' wk d)"
  by (simp add: checkedAt_checkEntry checkEntry_deleteHabit)

text \<open>
  C7: deleting a habit removes it from the habits sequence and removes the whole subtree
  of its entries from \<open>checks\<close> in the same operation, and every later \<open>dayCounts\<close>
  on the resulting document counts the habit neither in \<open>total\<close> nor in \<open>done\<close>: the
  counts are those of the other habits of the document.
\<close>

theorem deleteHabit_removes:
  "i \<notin> habitId ` set (habits (deleteHabit doc i)) \<and>
   habits (deleteHabit doc i) = filter (\<lambda>h. habitId h \<noteq> i) (habits doc) \<and>
   map_of (checks (deleteHabit doc i)) i = None \<and>
   checkEntry (checks (deleteHabit doc i)) i wk k = None \<and>
   total (dayCounts tz parse (deleteHabit doc i) date) =
     length (filter (\<lambda>h. habitId h \<noteq> i \<and> activeOn parse date h) (habits doc)) \<and>
   doneCount (dayCounts tz parse (deleteHabit doc i) date) =
     length (filter (\<lambda>h. habitId h \<noteq> i \<and> activeOn parse date h \<and>
        checkEntry (checks doc) (habitId h) (weekKey tz date) (numberToString (getDay tz date))
          = Some True) (habits doc))"
proof -
  have 1: "i \<notin> habitId ` set (habits (deleteHabit doc i))"
    by (auto simp: habits_deleteHabit)
  have 2: "map_of (checks (deleteHabit doc i)) i = None"
    by (simp add: deleteHabit_def delete_conv')
  have 3: "total (dayCounts tz parse (deleteHabit doc i) date) =
     length (filter (\<lambda>h. habitId h \<noteq> i \<and> activeOn parse date h) (habits doc))"
    by (simp add: dayCounts_eq habits_deleteHabit)
  have "filter (\<lambda>h. activeOn parse date h \<and>
          checkedAt (checks (deleteHabit doc i)) (habitId h) (weekKey tz date) (getDay tz date))
          (filter (\<lambda>h. habitId h \<noteq> i) (habits doc))
      = filter (\<lambda>h. habitId h \<noteq> i \<and> activeOn parse date h \<and>
        checkEntry (checks doc) (habitId h) (weekKey tz date) (numberToString (getDay tz date))
          = Some True) (habits doc)"
    unfolding filter_filter
    by (rule filter_cong) (auto simp: checkedAt_checkEntry checkEntry_deleteHabit)
  then have 4: "doneCount (dayCounts tz parse (deleteHabit doc i) date) =
     length (filter (\<lambda>h. habitId h \<noteq> i \<and> activeOn parse date h \<and>
        checkEntry (checks doc) (habitId h) (weekKey tz date) (numberToString (getDay tz date))
          = Some True) (habits doc))"
    by (simp only: dayCounts_eq habits_deleteHabit Counts.simps)
  show ?thesis
    using 1 2 3 4 by (simp add: habits_deleteHabit checkEntry_deleteHabit)
qed





section \<open>Properties of the calendar grid\<close>


















section \<open>Properties of the storage\<close>











































end
